theory Spec2Isabelle
  imports Complex_Main "HOL-Library.AList"
begin

section \<open>The presence markers of the globe (src/client/index.tsx)\<close>

text \<open>
  The component \<open>App\<close> keeps two pieces of state that the socket's \<open>onMessage\<close>
  handler changes: the ref \<open>positions\<close>, a \<open>Map\<close> from marker ids to markers, and the
  React state \<open>counter\<close>. The globe's \<open>onRender\<close> callback reads the map once per frame.

  Numbers that are only stored and compared (latitude, longitude, the two size
  literals) are modelled as \<open>real\<close>. The counter is a double that starts at zero and
  moves by one: a double holds every integer of magnitude up to \<open>2^53\<close> exactly, so
  in that range \<open>c + 1\<close> and \<open>c - 1\<close> are the integer operations, and the counter is an
  \<open>int\<close> here. At \<open>2^53\<close> the sum \<open>c + 1\<close> rounds back to \<open>c\<close> (and \<open>c - 1\<close> does at
  \<open>-2^53\<close>), which the integers do not show: a statement about the value of the counter
  in an arbitrary state carries the bound \<open>\<bar>counter st\<bar> < 2^53\<close>.
\<close>

subsection \<open>Data\<close>

text \<open>
  Modelled from the spec: the module \<open>../shared\<close> that declares \<open>OutgoingMessage\<close> is
  not among the sources. The wire contract gives the two shapes
  \<open>{type: "add-marker", position: {id, lat, lng}}\<close> and \<open>{type: <other>, id}\<close>.
  The handler reads the decoded object through the three properties \<open>type\<close>,
  \<open>position\<close> and \<open>id\<close>; a property the object does not have reads as \<open>undefined\<close>,
  which is \<open>None\<close> here.
\<close>

record Position =
  pos_id :: string
  lat :: real
  lng :: real

record Message =
  msg_type :: string
  position :: "Position option"
  msg_id :: "string option"

text \<open>The value type of the map \<open>positions\<close> (lines 21-29).\<close>

record Marker =
  location :: "real \<times> real"
  marker_size :: real

text \<open>The state the handler mutates: \<open>positions.current\<close> and \<open>counter\<close>.\<close>

record State =
  positions :: "(string \<times> Marker) list"
  counter :: int

text \<open>
  Reading a property of \<open>undefined\<close> throws a \<open>TypeError\<close>: the one way the body of
  the handler can throw on a decoded object of the shapes above.
\<close>

datatype error = TypeError

text \<open>The two shapes of the wire contract, as the server sends them.\<close>

definition add_marker :: "string \<Rightarrow> real \<Rightarrow> real \<Rightarrow> Message" where
  "add_marker i la lo =
     \<lparr>msg_type = ''add-marker'',
      position = Some \<lparr>pos_id = i, lat = la, lng = lo\<rparr>,
      msg_id = None\<rparr>"

definition removal :: "string \<Rightarrow> string \<Rightarrow> Message" where
  "removal tag i = \<lparr>msg_type = tag, position = None, msg_id = Some i\<rparr>"

subsection \<open>The JavaScript \<open>Map\<close>\<close>

text \<open>
  A \<open>Map\<close> keeps its entries in insertion order: \<open>set\<close> on a key that is present
  replaces the value where the entry stands, \<open>set\<close> on a new key appends the entry,
  \<open>delete\<close> takes the entry out (and does nothing for an absent key), \<open>values()\<close>
  lists the values in that order. The model is the list of entries.
\<close>

fun Map_set :: "'k \<Rightarrow> 'v \<Rightarrow> ('k \<times> 'v) list \<Rightarrow> ('k \<times> 'v) list" where
  "Map_set k v [] = [(k, v)]"
| "Map_set k v ((k', v') # es) =
     (if k' = k then (k, v) # es else (k', v') # Map_set k v es)"

fun Map_delete :: "'k \<Rightarrow> ('k \<times> 'v) list \<Rightarrow> ('k \<times> 'v) list" where
  "Map_delete k [] = []"
| "Map_delete k ((k', v') # es) =
     (if k' = k then Map_delete k es else (k', v') # Map_delete k es)"

definition Map_values :: "('k \<times> 'v) list \<Rightarrow> 'v list" where
  "Map_values es = map snd es"

text \<open>
  \<open>keys()\<close>, \<open>size\<close> and \<open>get\<close> of the same \<open>Map\<close>: the handler does not call them;
  the properties below are stated with them.
\<close>

definition Map_keys :: "('k \<times> 'v) list \<Rightarrow> 'k list" where
  "Map_keys es = map fst es"

definition Map_size :: "('k \<times> 'v) list \<Rightarrow> nat" where
  "Map_size es = length es"

definition Map_get :: "('k \<times> 'v) list \<Rightarrow> 'k \<Rightarrow> 'v option" where
  "Map_get es k = map_of es k"

subsection \<open>The message handler (lines 34-50)\<close>

text \<open>
  \<open>onMessage socket_id st message\<close> is the body of the handler after
  \<open>JSON.parse\<close>, on the decoded object. \<open>socket_id\<close> is \<open>socket.id\<close>, the id of the
  client's own connection. In the first branch \<open>message.position.id\<close> is evaluated
  before \<open>set\<close> is called, so a message without \<open>position\<close> throws with nothing
  changed. In the second branch \<open>delete(undefined)\<close> finds no entry, since every key
  is a string.
\<close>

definition onMessage :: "string \<Rightarrow> State \<Rightarrow> Message \<Rightarrow> error + State" where
  "onMessage socket_id st message =
     (if msg_type message = ''add-marker'' then
        (case position message of
           None \<Rightarrow> Inl TypeError
         | Some p \<Rightarrow>
             Inr \<lparr>positions =
                    Map_set (pos_id p)
                      \<lparr>location = (lat p, lng p),
                       marker_size = (if pos_id p = socket_id then 0.1 else 0.05)\<rparr>
                      (positions st),
                  counter = counter st + 1\<rparr>)
      else
        Inr \<lparr>positions =
               (case msg_id message of
                  None \<Rightarrow> positions st
                | Some i \<Rightarrow> Map_delete i (positions st)),
             counter = counter st - 1\<rparr>)"

text \<open>\<open>useState(0)\<close> and \<open>new Map()\<close>: the state at mount.\<close>

definition initial :: State where
  "initial = \<lparr>positions = [], counter = 0\<rparr>"

text \<open>
  The socket calls the handler once per message, in order. A handler that throws has
  changed nothing, and the socket goes on to deliver the next message.
\<close>

definition deliver :: "string \<Rightarrow> State \<Rightarrow> Message \<Rightarrow> State" where
  "deliver socket_id st message =
     (case onMessage socket_id st message of Inl e \<Rightarrow> st | Inr st' \<Rightarrow> st')"

fun run :: "string \<Rightarrow> State \<Rightarrow> Message list \<Rightarrow> State" where
  "run socket_id st [] = st"
| "run socket_id st (m # ms) = run socket_id (deliver socket_id st m) ms"

subsection \<open>The render callback (lines 73-83)\<close>

text \<open>
  \<open>onRender\<close> hands the renderer the values of the map and the angle \<open>phi\<close>, then
  advances \<open>phi\<close>. The angle is a double and \<open>phi += 0.01\<close> is a rounded addition;
  it is the parameter \<open>advance\<close> here, and the angle's type is left open.
\<close>

record 'n Frame =
  markers :: "Marker list"
  phi :: 'n

definition onRender ::
  "('n \<Rightarrow> 'n) \<Rightarrow> (string \<times> Marker) list \<Rightarrow> 'n \<Rightarrow> 'n Frame \<times> 'n" where
  "onRender advance ps angle =
     (\<lparr>markers = Map_values ps, phi = angle\<rparr>, advance angle)"

subsection \<open>What a sequence of events should leave on the globe\<close>

text \<open>
  The specification's reading of a history of events, independent of the handler. An
  add event for \<open>i\<close> is a message tagged \<open>add-marker\<close> whose position has id \<open>i\<close>; a
  removal of \<open>i\<close> is a message with any other tag and id \<open>i\<close>. \<open>recent\<close> reads a
  history backwards, most recent event first: the first event that names \<open>i\<close> decides
  whether \<open>i\<close> is present, and with which location.
\<close>

definition adds :: "Message \<Rightarrow> string \<Rightarrow> (real \<times> real) option" where
  "adds m i =
     (if msg_type m = ''add-marker'' then
        (case position m of
           None \<Rightarrow> None
         | Some p \<Rightarrow> if pos_id p = i then Some (lat p, lng p) else None)
      else None)"

definition removes :: "Message \<Rightarrow> string \<Rightarrow> bool" where
  "removes m i = (msg_type m \<noteq> ''add-marker'' \<and> msg_id m = Some i)"

fun recent :: "Message list \<Rightarrow> string \<Rightarrow> (real \<times> real) option" where
  "recent [] i = None"
| "recent (m # ms) i =
     (case adds m i of
        Some l \<Rightarrow> Some l
      | None \<Rightarrow> if removes m i then None else recent ms i)"

definition spec_present :: "Message list \<Rightarrow> string \<Rightarrow> (real \<times> real) option" where
  "spec_present evs i = recent (rev evs) i"

subsection \<open>Events that match the map\<close>

text \<open>
  \<open>paired socket_id st evs\<close>: delivered in order from \<open>st\<close>, every message of \<open>evs\<close>
  is an \<open>add-marker\<close> for an id the map does not hold at that moment, or a removal of
  an id it holds.
\<close>

fun paired :: "string \<Rightarrow> State \<Rightarrow> Message list \<Rightarrow> bool" where
  "paired socket_id st [] = True"
| "paired socket_id st (m # ms) =
     ((if msg_type m = ''add-marker'' then
         (case position m of
            None \<Rightarrow> False
          | Some p \<Rightarrow> Map_get (positions st) (pos_id p) = None)
       else
         (case msg_id m of
            None \<Rightarrow> False
          | Some i \<Rightarrow> Map_get (positions st) i \<noteq> None)) \<and>
      paired socket_id (deliver socket_id st m) ms)"

section \<open>Properties of the map\<close>

lemma Map_set_update: "Map_set k v es = AList.update k v es"
  by (induction es) auto

lemma Map_delete_delete: "Map_delete k es = AList.delete k es"
  by (induction es) auto

lemma Map_get_map_of: "Map_get es = map_of es"
  by (rule ext) (simp add: Map_get_def)

lemma Map_get_set: "Map_get (Map_set k v es) = (Map_get es)(k \<mapsto> v)"
  by (simp add: Map_get_map_of Map_set_update update_conv')

lemma Map_get_delete: "Map_get (Map_delete k es) = (Map_get es)(k := None)"
  by (simp add: Map_get_map_of Map_delete_delete delete_conv')

lemma distinct_Map_set:
  "distinct (Map_keys es) \<Longrightarrow> distinct (Map_keys (Map_set k v es))"
  by (simp add: Map_keys_def Map_set_update distinct_update)

lemma distinct_Map_delete:
  "distinct (Map_keys es) \<Longrightarrow> distinct (Map_keys (Map_delete k es))"
  by (simp add: Map_keys_def Map_delete_delete distinct_delete)

lemma set_Map_keys: "set (Map_keys es) = dom (Map_get es)"
  by (simp add: Map_keys_def Map_get_map_of dom_map_of_conv_image_fst)

lemma Map_values_by_key:
  "distinct (Map_keys es) \<Longrightarrow>
   Map_values es = map (\<lambda>k. the (Map_get es k)) (Map_keys es)"
proof (induction es)
  case Nil
  show ?case by (simp add: Map_values_def Map_keys_def)
next
  case (Cons e es)
  obtain k v where e: "e = (k, v)" by (cases e)
  from Cons.prems have fresh: "k \<notin> set (Map_keys es)"
    and rest: "distinct (Map_keys es)"
    by (simp_all add: Map_keys_def e)
  have "map (\<lambda>j. the (Map_get (e # es) j)) (Map_keys es) =
        map (\<lambda>j. the (Map_get es j)) (Map_keys es)"
  proof (rule map_cong)
    fix j assume "j \<in> set (Map_keys es)"
    with fresh have "j \<noteq> k" by blast
    then show "the (Map_get (e # es) j) = the (Map_get es j)"
      by (simp add: Map_get_def e)
  qed simp
  with Cons.IH [OF rest] show ?case
    by (simp add: Map_values_def Map_keys_def Map_get_def e)
qed

section \<open>Properties of the handler\<close>

lemma run_append: "run self st (xs @ ys) = run self (run self st xs) ys"
  by (induction xs arbitrary: st) auto

lemma run_snoc: "run self st (xs @ [m]) = deliver self (run self st xs) m"
  by (simp add: run_append)

lemma distinct_deliver:
  "distinct (Map_keys (positions st)) \<Longrightarrow>
   distinct (Map_keys (positions (deliver self st m)))"
  by (auto simp: deliver_def onMessage_def distinct_Map_set distinct_Map_delete
      split: option.splits)

lemma distinct_run:
  "distinct (Map_keys (positions st)) \<Longrightarrow>
   distinct (Map_keys (positions (run self st evs)))"
  by (induction evs arbitrary: st) (auto simp: distinct_deliver)

lemma location_deliver:
  "map_option location (Map_get (positions (deliver self st m)) i) =
     (case adds m i of
        Some l \<Rightarrow> Some l
      | None \<Rightarrow>
          if removes m i then None
          else map_option location (Map_get (positions st) i))"
  by (auto simp: deliver_def onMessage_def adds_def removes_def Map_get_set
      Map_get_delete split: option.splits)

lemma location_run:
  "map_option location (Map_get (positions (run self initial evs)) i) =
     spec_present evs i"
proof (induction evs rule: rev_induct)
  case Nil
  show ?case by (simp add: initial_def Map_get_def spec_present_def)
next
  case (snoc m evs)
  then show ?case
    by (simp add: run_snoc location_deliver spec_present_def split: option.splits)
qed

lemma Map_delete_absent: "Map_get es k = None \<Longrightarrow> Map_delete k es = es"
  by (induction es) (auto simp: Map_get_def split: if_splits)

lemma initial_distinct: "distinct (Map_keys (positions initial))"
  by (simp add: initial_def Map_keys_def)

lemma counter_deliver_bound:
  "\<bar>counter (deliver self st m)\<bar> \<le> \<bar>counter st\<bar> + 1"
  by (auto simp: deliver_def onMessage_def split: option.splits)

text \<open>
  Each message moves the counter by at most one, so fewer than \<open>2^53\<close> messages from
  the state at mount keep it in the range where the double counts exactly.
\<close>

lemma counter_run_bound:
  "\<bar>counter (run self st evs)\<bar> \<le> \<bar>counter st\<bar> + int (length evs)"
proof (induction evs arbitrary: st)
  case Nil
  show ?case by simp
next
  case (Cons m ms)
  have "\<bar>counter (run self (deliver self st m) ms)\<bar>
      \<le> \<bar>counter (deliver self st m)\<bar> + int (length ms)"
    by (rule Cons.IH)
  also have "\<dots> \<le> (\<bar>counter st\<bar> + 1) + int (length ms)"
    using counter_deliver_bound [of self st m] by simp
  finally show ?case by simp
qed

lemma counter_in_range:
  "length evs < 2 ^ 53 \<Longrightarrow> \<bar>counter (run self initial evs)\<bar> < 2 ^ 53"
proof -
  assume short: "length evs < 2 ^ 53"
  have "\<bar>counter (run self initial evs)\<bar> \<le> \<bar>counter initial\<bar> + int (length evs)"
    by (rule counter_run_bound)
  also have "\<dots> = int (length evs)"
    by (simp add: initial_def)
  also from short have "\<dots> < int (2 ^ 53)"
    by (simp only: of_nat_less_iff)
  finally show ?thesis by simp
qed

text \<open>
  A message with a tag other than \<open>add-marker\<close> never makes the handler throw, whatever
  the map holds; when its id is not in the map, the map is left as it is.
\<close>

lemma removal_never_throws:
  "msg_type m \<noteq> ''add-marker'' \<Longrightarrow> \<exists>st'. onMessage self st m = Inr st'"
  by (simp add: onMessage_def)

lemma removal_of_absent_id:
  "msg_type m \<noteq> ''add-marker'' \<Longrightarrow> msg_id m = Some i \<Longrightarrow>
   Map_get (positions st) i = None \<Longrightarrow>
   \<exists>st'. onMessage self st m = Inr st' \<and> positions st' = positions st"
  by (simp add: onMessage_def Map_delete_absent)

section \<open>The claims\<close>

text \<open>
  C1. The comment on \<open>counter\<close> calls it the number of markers on display, and the
  specification asks that the size of the map equal the counter after every event.
  The handler moves the counter on every message, whatever the map does: after two
  \<open>add-marker\<close> messages for the same id the map holds one marker and the counter
  reads two.
\<close>

theorem counter_drifts_on_repeated_add:
  "Map_size (positions (run ''me'' initial
       [add_marker ''abc'' 10 20, add_marker ''abc'' 10 20])) = 1 \<and>
   counter (run ''me'' initial
       [add_marker ''abc'' 10 20, add_marker ''abc'' 10 20]) = 2"
  by (simp add: initial_def deliver_def onMessage_def add_marker_def Map_size_def)

text \<open>
  C2. An \<open>add-marker\<close> message stores, under the id of its position, a marker of
  size 0.1 when that id is the socket's own id and of size 0.05 otherwise.
\<close>

theorem add_marker_size:
  assumes "msg_type m = ''add-marker''" and "position m = Some p"
  shows "\<exists>st' mk. onMessage self st m = Inr st' \<and>
           Map_get (positions st') (pos_id p) = Some mk \<and>
           marker_size mk = (if pos_id p = self then 0.1 else 0.05)"
  by (simp add: onMessage_def assms Map_get_set)

theorem add_marker_size_witness:
  "(\<exists>st' mk. onMessage ''me'' initial (add_marker ''me'' 10 20) = Inr st' \<and>
      Map_get (positions st') ''me'' = Some mk \<and> marker_size mk = 0.1) \<and>
   (\<exists>st' mk. onMessage ''me'' initial (add_marker ''abc'' 10 20) = Inr st' \<and>
      Map_get (positions st') ''abc'' = Some mk \<and> marker_size mk = 0.05)"
  using
    add_marker_size [where m = "add_marker ''me'' 10 20"
      and p = "\<lparr>pos_id = ''me'', lat = 10, lng = 20\<rparr>" and self = "''me''"
      and st = initial]
    add_marker_size [where m = "add_marker ''abc'' 10 20"
      and p = "\<lparr>pos_id = ''abc'', lat = 10, lng = 20\<rparr>" and self = "''me''"
      and st = initial]
  by (simp add: add_marker_def)

text \<open>
  C3. After any sequence of events from the empty map, the list of markers that
  \<open>onRender\<close> hands to the renderer has one marker for each id that was added and not
  removed afterwards, and no other; the marker of an id carries the location of the
  most recent add event for that id.
\<close>

theorem snapshot_after_events:
  "\<exists>ids. distinct ids \<and> set ids = {i. spec_present evs i \<noteq> None} \<and>
     map location
       (markers (fst (onRender advance (positions (run self initial evs)) angle))) =
     map (\<lambda>i. the (spec_present evs i)) ids"
proof -
  let ?ps = "positions (run self initial evs)"
  have d: "distinct (Map_keys ?ps)"
    by (rule distinct_run) (rule initial_distinct)
  have loc: "map_option location (Map_get ?ps i) = spec_present evs i" for i
    by (rule location_run)
  have "set (Map_keys ?ps) = {i. Map_get ?ps i \<noteq> None}"
    by (auto simp: set_Map_keys)
  also have "\<dots> = {i. spec_present evs i \<noteq> None}"
    using loc by (metis (no_types) option.map_disc_iff)
  finally have s: "set (Map_keys ?ps) = {i. spec_present evs i \<noteq> None}" .
  have "map location (Map_values ?ps) =
        map (\<lambda>i. location (the (Map_get ?ps i))) (Map_keys ?ps)"
    by (subst Map_values_by_key [OF d]) simp
  also have "\<dots> = map (\<lambda>i. the (spec_present evs i)) (Map_keys ?ps)"
  proof (rule map_cong)
    fix i assume "i \<in> set (Map_keys ?ps)"
    then obtain mk where mk: "Map_get ?ps i = Some mk"
      by (auto simp: set_Map_keys)
    with loc [of i] have "spec_present evs i = Some (location mk)"
      by simp
    with mk show "location (the (Map_get ?ps i)) = the (spec_present evs i)"
      by simp
  qed simp
  finally have "map location (markers (fst (onRender advance ?ps angle))) =
      map (\<lambda>i. the (spec_present evs i)) (Map_keys ?ps)"
    by (simp add: onRender_def)
  with d s show ?thesis by blast
qed

text \<open>
  C4. While the counter is in the range where a double counts exactly (magnitude
  below \<open>2^53\<close>), a handled \<open>add-marker\<close> message raises the counter by exactly one
  and a message with any other tag lowers it by exactly one, whatever the map holds:
  neither looks at whether the id is in the map.
\<close>

theorem counter_moves_by_one:
  assumes "\<bar>counter st\<bar> < 2 ^ 53"
  shows
    "(msg_type m = ''add-marker'' \<and> position m = Some p \<longrightarrow>
        (\<exists>st'. onMessage self st m = Inr st' \<and> counter st' = counter st + 1)) \<and>
     (msg_type m \<noteq> ''add-marker'' \<longrightarrow>
        (\<exists>st'. onMessage self st m = Inr st' \<and> counter st' = counter st - 1))"
  by (simp add: onMessage_def)

theorem counter_moves_by_one_witness:
  "(\<exists>st'. onMessage ''me''
        \<lparr>positions = [(''abc'', \<lparr>location = (10, 20), marker_size = 0.05\<rparr>)],
         counter = 1\<rparr>
        (add_marker ''abc'' 10 20) = Inr st' \<and> counter st' = 2) \<and>
   (\<exists>st'. onMessage ''me'' initial (removal ''remove-marker'' ''abc'') = Inr st' \<and>
        counter st' = - 1)"
proof -
  let ?st = "\<lparr>positions = [(''abc'', \<lparr>location = (10, 20), marker_size = 0.05\<rparr>)],
      counter = 1\<rparr>"
  have held: "\<bar>counter ?st\<bar> < 2 ^ 53"
    by simp
  have empty: "\<bar>counter initial\<bar> < 2 ^ 53"
    by (simp add: initial_def)
  show ?thesis
    using
      counter_moves_by_one [OF held, where m = "add_marker ''abc'' 10 20"
        and p = "\<lparr>pos_id = ''abc'', lat = 10, lng = 20\<rparr>" and self = "''me''"]
      counter_moves_by_one [OF empty, where m = "removal ''remove-marker'' ''abc''"
        and self = "''me''"]
    by (simp add: add_marker_def removal_def initial_def)
qed

text \<open>
  C5. A removal of an id that was never added does not make the handler throw, and
  the map stays empty; but the handler lowers the counter all the same, so the count
  of visitors it tracks falls below zero: after one such message on the state at mount
  the counter reads -1.
\<close>

theorem orphan_removal_counts_below_zero:
  "onMessage ''me'' initial (removal ''remove-marker'' ''abc'') =
     Inr \<lparr>positions = [], counter = - 1\<rparr> \<and>
   Map_size (positions (run ''me'' initial [removal ''remove-marker'' ''abc''])) = 0 \<and>
   counter (run ''me'' initial [removal ''remove-marker'' ''abc'']) = - 1"
  by (simp add: initial_def deliver_def onMessage_def removal_def Map_size_def)

text \<open>
  C6. From the empty map, the message
  \<open>{"type":"add-marker","position":{"id":"abc","lat":10,"lng":20}}\<close> leaves a single
  marker at \<open>[10, 20]\<close> of size 0.05 or 0.1 for the renderer and a counter of 1; the
  message \<open>{"type":"remove","id":"abc"}\<close> after it leaves no marker and a counter
  of 0.
\<close>

theorem add_then_remove_scenario:
  "(\<exists>sz. markers (fst (onRender advance
            (positions (run self initial [add_marker ''abc'' 10 20])) angle)) =
          [\<lparr>location = (10, 20), marker_size = sz\<rparr>] \<and>
        (sz = 0.05 \<or> sz = 0.1)) \<and>
   counter (run self initial [add_marker ''abc'' 10 20]) = 1 \<and>
   markers (fst (onRender advance
       (positions (run self initial
          [add_marker ''abc'' 10 20, removal ''remove'' ''abc''])) angle)) = [] \<and>
   counter (run self initial
       [add_marker ''abc'' 10 20, removal ''remove'' ''abc'']) = 0"
  by (simp add: initial_def deliver_def onMessage_def add_marker_def removal_def
      onRender_def Map_values_def)

text \<open>
  C7. A message whose tag is any string other than \<open>add-marker\<close> is a removal of
  its id: the handler does not throw, and afterwards the map has no entry for that id
  and every other entry as before.
\<close>

theorem other_tag_deletes:
  assumes "msg_type m \<noteq> ''add-marker''" and "msg_id m = Some i"
  shows "\<exists>st'. onMessage self st m = Inr st' \<and>
           positions st' = Map_delete i (positions st) \<and>
           Map_get (positions st') = (Map_get (positions st))(i := None)"
  by (simp add: onMessage_def assms Map_get_delete)

theorem other_tag_deletes_witness:
  "\<exists>st'. onMessage ''me''
       \<lparr>positions = [(''abc'', \<lparr>location = (10, 20), marker_size = 0.05\<rparr>)],
        counter = 1\<rparr>
       (removal ''bye'' ''abc'') = Inr st' \<and>
     positions st' = [] \<and> Map_get (positions st') ''abc'' = None"
  using other_tag_deletes [where m = "removal ''bye'' ''abc''" and i = "''abc''"
      and self = "''me''"
      and st = "\<lparr>positions = [(''abc'', \<lparr>location = (10, 20), marker_size = 0.05\<rparr>)],
        counter = 1\<rparr>"]
  by (auto simp: removal_def)

text \<open>
  C9. Handling one event leaves every entry under another key as it was: after an
  \<open>add-marker\<close> for id \<open>X\<close>, or a removal of \<open>X\<close>, a key other than \<open>X\<close> is in the map
  exactly if it was before, with the same marker (location and size).
\<close>

theorem other_entries_unchanged:
  assumes "onMessage self st m = Inr st'"
  shows "(msg_type m = ''add-marker'' \<and> position m = Some p \<and> pos_id p \<noteq> k \<longrightarrow>
            Map_get (positions st') k = Map_get (positions st) k) \<and>
         (msg_type m \<noteq> ''add-marker'' \<and> msg_id m \<noteq> Some k \<longrightarrow>
            Map_get (positions st') k = Map_get (positions st) k)"
  using assms
  by (auto simp: onMessage_def Map_get_set Map_get_delete split: option.splits)

theorem other_entries_unchanged_witness:
  "(\<exists>st'. onMessage ''me''
        \<lparr>positions = [(''abc'', \<lparr>location = (10, 20), marker_size = 0.05\<rparr>)],
         counter = 1\<rparr>
        (add_marker ''me'' 1 2) = Inr st' \<and>
      Map_get (positions st') ''abc'' =
        Some \<lparr>location = (10, 20), marker_size = 0.05\<rparr>) \<and>
   (\<exists>st'. onMessage ''me''
        \<lparr>positions = [(''abc'', \<lparr>location = (10, 20), marker_size = 0.05\<rparr>)],
         counter = 1\<rparr>
        (removal ''remove-marker'' ''me'') = Inr st' \<and>
      Map_get (positions st') ''abc'' =
        Some \<lparr>location = (10, 20), marker_size = 0.05\<rparr>)"
proof -
  let ?mk = "\<lparr>location = (10, 20), marker_size = 0.05\<rparr>"
  let ?st = "\<lparr>positions = [(''abc'', ?mk)], counter = 1\<rparr>"
  let ?added = "\<lparr>positions =
      [(''abc'', ?mk), (''me'', \<lparr>location = (1, 2), marker_size = 0.1\<rparr>)],
    counter = 2\<rparr>"
  let ?removed = "\<lparr>positions = [(''abc'', ?mk)], counter = 0\<rparr>"
  have before: "Map_get (positions ?st) ''abc'' = Some ?mk"
    by (simp add: Map_get_def)
  have a: "onMessage ''me'' ?st (add_marker ''me'' 1 2) = Inr ?added"
    by (simp add: onMessage_def add_marker_def)
  have r: "onMessage ''me'' ?st (removal ''remove-marker'' ''me'') = Inr ?removed"
    by (simp add: onMessage_def removal_def)
  have "Map_get (positions ?added) ''abc'' = Map_get (positions ?st) ''abc''"
    using other_entries_unchanged [OF a,
        where p = "\<lparr>pos_id = ''me'', lat = 1, lng = 2\<rparr>" and k = "''abc''"]
    by (simp add: add_marker_def)
  moreover have "Map_get (positions ?removed) ''abc'' = Map_get (positions ?st) ''abc''"
    using other_entries_unchanged [OF r, where k = "''abc''"]
    by (simp add: removal_def)
  ultimately show ?thesis
    unfolding before using a r by blast
qed

section \<open>When the counter does follow the map\<close>

lemma Map_size_set_new:
  "Map_get es k = None \<Longrightarrow> Map_size (Map_set k v es) = Suc (Map_size es)"
  by (induction es) (auto simp: Map_get_def Map_size_def split: if_splits)

lemma Map_size_delete_old:
  "distinct (Map_keys es) \<Longrightarrow> Map_get es k \<noteq> None \<Longrightarrow>
   Suc (Map_size (Map_delete k es)) = Map_size es"
proof (induction es)
  case Nil
  then show ?case by (simp add: Map_get_def)
next
  case (Cons e es)
  obtain j v where e: "e = (j, v)" by (cases e)
  show ?case
  proof (cases "j = k")
    case True
    with Cons.prems have "Map_get es k = None"
      by (auto simp: e Map_keys_def Map_get_def map_of_eq_None_iff)
    then show ?thesis
      by (simp add: e True Map_delete_absent Map_size_def)
  next
    case False
    with Cons show ?thesis
      by (simp add: e Map_keys_def Map_get_def Map_size_def)
  qed
qed

lemma paired_step:
  assumes "distinct (Map_keys (positions st))"
    and "int (Map_size (positions st)) = counter st"
    and "paired self st [m]"
  shows "int (Map_size (positions (deliver self st m))) = counter (deliver self st m)"
proof (cases "msg_type m = ''add-marker''")
  case True
  with assms(3) obtain p where p: "position m = Some p"
    and new: "Map_get (positions st) (pos_id p) = None"
    by (auto split: option.splits)
  show ?thesis
    using assms(2)
    by (simp add: deliver_def onMessage_def True p Map_size_set_new [OF new])
next
  case False
  with assms(3) obtain i where i: "msg_id m = Some i"
    and old: "Map_get (positions st) i \<noteq> None"
    by (auto split: option.splits)
  from Map_size_delete_old [OF assms(1) old] assms(2) show ?thesis
    by (simp add: deliver_def onMessage_def False i)
qed

lemma paired_run:
  "distinct (Map_keys (positions st)) \<Longrightarrow>
   int (Map_size (positions st)) = counter st \<Longrightarrow>
   paired self st evs \<Longrightarrow>
   int (Map_size (positions (run self st evs))) = counter (run self st evs)"
proof (induction evs arbitrary: st)
  case Nil
  then show ?case by simp
next
  case (Cons m ms)
  from Cons.prems(3) have one: "paired self st [m]"
    and rest: "paired self (deliver self st m) ms"
    by simp_all
  show ?case
    using Cons.IH [OF distinct_deliver [OF Cons.prems(1)]
        paired_step [OF Cons.prems(1) Cons.prems(2) one] rest]
    by simp
qed

lemma paired_take: "paired self st evs \<Longrightarrow> paired self st (take n evs)"
proof (induction evs arbitrary: st n)
  case Nil
  then show ?case by simp
next
  case (Cons m ms)
  then show ?case by (cases n) simp_all
qed

text \<open>
  The counter drifts only on a repeated add or an orphan removal: when every
  \<open>add-marker\<close> names an id the map does not hold and every removal names an id it
  holds, the size of the map equals the counter after each event of the sequence.
  The sequence is shorter than \<open>2^53\<close>, so that the counter stays where the double
  counts exactly.
\<close>

theorem counter_follows_paired_events:
  assumes matched: "paired self initial evs" and short: "length evs < 2 ^ 53"
  shows "int (Map_size (positions (run self initial (take n evs)))) =
         counter (run self initial (take n evs))"
  by (rule paired_run [OF initial_distinct _ paired_take [OF matched]])
    (simp add: initial_def Map_size_def)

theorem counter_follows_paired_events_witness:
  "paired ''me'' initial [add_marker ''abc'' 10 20, removal ''remove-marker'' ''abc''] \<and>
   int (Map_size (positions (run ''me'' initial
      (take 1 [add_marker ''abc'' 10 20, removal ''remove-marker'' ''abc''])))) = 1 \<and>
   counter (run ''me'' initial
      (take 1 [add_marker ''abc'' 10 20, removal ''remove-marker'' ''abc''])) = 1"
proof -
  let ?evs = "[add_marker ''abc'' 10 20, removal ''remove-marker'' ''abc'']"
  have p: "paired ''me'' initial ?evs"
    by (simp add: initial_def deliver_def onMessage_def add_marker_def removal_def
        Map_get_def)
  have l: "length ?evs < 2 ^ 53"
    by simp
  have c: "counter (run ''me'' initial (take 1 ?evs)) = 1"
    by (simp add: initial_def deliver_def onMessage_def add_marker_def)
  from counter_follows_paired_events [OF p l, of 1] c p show ?thesis
    by (simp only: simp_thms)
qed

end
